theory Spec2Isabelle
  imports Main "HOL-Library.Word"
begin

section \<open>Strings\<close>

text \<open>
  A JavaScript string is a sequence of UTF-16 code units; \<open>length\<close>, \<open>slice\<close> and the
  regular expressions of \<^verbatim>\<open>src/translator/index.js\<close> all work on code units.
\<close>

type_synonym jschar = "16 word"
type_synonym jsstring = "jschar list"

definition ascii :: "string \<Rightarrow> jsstring" where
  "ascii s = map of_char s"

text \<open>The character class \<^verbatim>\<open>\s\<close> of a JavaScript regular expression (white space and line terminators).\<close>

definition is_space :: "jschar \<Rightarrow> bool" where
  "is_space c \<longleftrightarrow>
     c \<in> set [0x9, 0xA, 0xB, 0xC, 0xD, 0x20, 0xA0, 0x1680, 0x2028, 0x2029, 0x202F, 0x205F, 0x3000, 0xFEFF]
     \<or> (0x2000 \<le> c \<and> c \<le> 0x200A)"

section \<open>JavaScript values\<close>

text \<open>
  The values the translator handles: what \<^verbatim>\<open>JSON.parse\<close> returns (null, booleans,
  numbers, strings, arrays, objects with their keys in order) and \<^verbatim>\<open>undefined\<close>, which a
  read of a missing index yields. Numbers are the integers; a response with a fractional
  number is outside this model.
\<close>

datatype jsval =
    JUndefined
  | JNull
  | JBool bool
  | JNum int
  | JStr jsstring
  | JArr "jsval list"
  | JObj "(jsstring \<times> jsval) list"

fun truthy :: "jsval \<Rightarrow> bool" where
  "truthy JUndefined = False"
| "truthy JNull = False"
| "truthy (JBool b) = b"
| "truthy (JNum n) = (n \<noteq> 0)"
| "truthy (JStr s) = (s \<noteq> [])"
| "truthy (JArr xs) = True"
| "truthy (JObj kvs) = True"

fun nullish :: "jsval \<Rightarrow> bool" where
  "nullish JUndefined = True"
| "nullish JNull = True"
| "nullish v = False"

text \<open>\<^verbatim>\<open>Array.isArray\<close>.\<close>

fun isArray :: "jsval \<Rightarrow> bool" where
  "isArray (JArr xs) = True"
| "isArray v = False"

fun elements :: "jsval \<Rightarrow> jsval list" where
  "elements (JArr xs) = xs"
| "elements v = []"

text \<open>Decimal digits of a number, as \<^verbatim>\<open>String(n)\<close> writes an integer.\<close>

fun show_nat :: "nat \<Rightarrow> jsstring" where
  "show_nat n = (if n < 10 then [of_nat (48 + n)] else show_nat (n div 10) @ [of_nat (48 + n mod 10)])"

declare show_nat.simps [simp del]

definition show_int :: "int \<Rightarrow> jsstring" where
  "show_int n = (if n < 0 then ascii ''-'' @ show_nat (nat (- n)) else show_nat (nat n))"

text \<open>
  \<^verbatim>\<open>Array.prototype.join(",")\<close> on the converted elements; \<open>None\<close> is the \<^verbatim>\<open>TypeError\<close>
  of an element that has no string conversion.
\<close>

fun join_comma :: "jsstring option list \<Rightarrow> jsstring option" where
  "join_comma [] = Some []"
| "join_comma [x] = x"
| "join_comma (x # y # ys) =
     (case x of
        None \<Rightarrow> None
      | Some s \<Rightarrow> (case join_comma (y # ys) of None \<Rightarrow> None | Some r \<Rightarrow> Some (s @ ascii '','' @ r)))"

text \<open>
  The string conversion that \<^verbatim>\<open>text += v\<close> applies to \<open>v\<close>. An array is joined with
  commas, null and undefined elements giving the empty string. An object parsed from
  JSON converts through \<^verbatim>\<open>Object.prototype.toString\<close>, unless it has a key
  \<^verbatim>\<open>toString\<close> of its own: that value is not callable and the conversion throws a
  \<^verbatim>\<open>TypeError\<close> (\<open>None\<close>).
\<close>

fun to_string :: "jsval \<Rightarrow> jsstring option" where
  "to_string JUndefined = Some (ascii ''undefined'')"
| "to_string JNull = Some (ascii ''null'')"
| "to_string (JBool b) = Some (if b then ascii ''true'' else ascii ''false'')"
| "to_string (JNum n) = Some (show_int n)"
| "to_string (JStr s) = Some s"
| "to_string (JArr xs) = join_comma (map (\<lambda>x. if nullish x then Some [] else to_string x) xs)"
| "to_string (JObj kvs) =
     (if ascii ''toString'' \<in> fst ` set kvs then None else Some (ascii ''[object Object]''))"

text \<open>
  The read \<open>v[i]\<close> of an integer index. On an array it is the element, on a string the
  one-unit string at that position, on an object the value of the key written in decimal
  (the last one when the JSON text repeats a key); everything missing is
  \<^verbatim>\<open>undefined\<close>. Every read of the source that is not written with \<^verbatim>\<open>?.\<close> comes after
  a test that its base is an array or is truthy, so the \<^verbatim>\<open>TypeError\<close> of a read on null or
  undefined cannot arise there; \<open>index\<close> gives \<^verbatim>\<open>undefined\<close> on such a base.
\<close>

fun index :: "jsval \<Rightarrow> nat \<Rightarrow> jsval" where
  "index (JArr xs) i = (if i < length xs then xs ! i else JUndefined)"
| "index (JStr s) i = (if i < length s then JStr [s ! i] else JUndefined)"
| "index (JObj kvs) i = (case map_of (rev kvs) (show_nat i) of Some v \<Rightarrow> v | None \<Rightarrow> JUndefined)"
| "index v i = JUndefined"

text \<open>The optional read \<^verbatim>\<open>v?.[i]\<close> and the operator \<^verbatim>\<open>a ?? b\<close>.\<close>

definition opt_index :: "jsval \<Rightarrow> nat \<Rightarrow> jsval" where
  "opt_index v i = (if nullish v then JUndefined else index v i)"

definition coalesce :: "jsval \<Rightarrow> jsval \<Rightarrow> jsval" where
  "coalesce a b = (if nullish a then b else a)"

text \<open>
  \<^verbatim>\<open>str.replace(/pat/g, rep)\<close> for a pattern that is a fixed string: every occurrence,
  from left to right, occurrences not overlapping.
\<close>

function replace_all :: "jsstring \<Rightarrow> jsstring \<Rightarrow> jsstring \<Rightarrow> jsstring" where
  "replace_all pat rep [] = []"
| "replace_all pat rep (c # cs) =
     (if pat \<noteq> [] \<and> take (length pat) (c # cs) = pat
      then rep @ replace_all pat rep (drop (length pat) (c # cs))
      else c # replace_all pat rep cs)"
  by pat_completeness auto
termination
  by (relation "measure (\<lambda>(pat, rep, s). length s)") auto

text \<open>
  A language code as the translator meets it: the strings of the declared type of
  \<^verbatim>\<open>options.from\<close> and \<^verbatim>\<open>options.to\<close>, \<^verbatim>\<open>undefined\<close>, and the \<^verbatim>\<open>null\<close> and \<^verbatim>\<open>false\<close>
  that \<^verbatim>\<open>getISOCode\<close> is declared to return (\<^verbatim>\<open>index.d.ts\<close>) and that the chunked path
  passes on as \<^verbatim>\<open>from\<close> and \<^verbatim>\<open>to\<close>.
\<close>

datatype lang = LStr jsstring | LNull | LFalse | LUndefined

fun lang_val :: "lang \<Rightarrow> jsval" where
  "lang_val (LStr s) = JStr s"
| "lang_val LNull = JNull"
| "lang_val LFalse = JBool False"
| "lang_val LUndefined = JUndefined"

text \<open>A language code inside a template literal: \<^verbatim>\<open>`${lang}`\<close>.\<close>

fun template :: "lang \<Rightarrow> jsstring" where
  "template (LStr s) = s"
| "template LNull = ascii ''null''"
| "template LFalse = ascii ''false''"
| "template LUndefined = ascii ''undefined''"

section \<open>Errors and results\<close>

text \<open>
  \<open>Error code message\<close> is what \<^verbatim>\<open>makeError(code, message, cause)\<close> builds (the cause is
  not modelled). \<open>TypeError\<close> is the engine's own exception, which no handler of the
  source catches. \<open>BodyUnreadable\<close> is a rejection of \<^verbatim>\<open>response.body.text()\<close>, which
  the source awaits outside its inner \<^verbatim>\<open>try\<close>. \<open>NoReturn\<close> stands for a call that never
  settles.
\<close>

datatype error = Error nat jsstring | TypeError | BodyUnreadable | NoReturn

record language_info =
  language_didYouMean :: bool
  language_iso :: jsval

record text_info =
  text_autoCorrected :: bool
  text_value :: jsstring
  text_didYouMean :: bool

record from_info =
  from_language :: language_info
  from_text :: text_info

record result =
  result_text :: jsstring
  result_from :: from_info
  result_raw :: jsval

section \<open>The response parser\<close>

text \<open>
  \<^verbatim>\<open>for (const obj of body[0]) { if (obj && obj[0]) { result.text += obj[0]; } }\<close>
\<close>

fun extract_text :: "jsstring \<Rightarrow> jsval list \<Rightarrow> error + jsstring" where
  "extract_text text [] = Inr text"
| "extract_text text (obj # objs) =
     (if truthy obj \<and> truthy (index obj 0)
      then (case to_string (index obj 0) of
              None \<Rightarrow> Inl TypeError
            | Some s \<Rightarrow> extract_text (text @ s) objs)
      else extract_text text objs)"

definition translated_text :: "jsval \<Rightarrow> error + jsstring" where
  "translated_text body =
     (if isArray body \<and> isArray (index body 0) then extract_text [] (elements (index body 0))
      else Inr [])"

text \<open>\<^verbatim>\<open>const detectedIso = body?.[8]?.[0]?.[0] ?? body?.[2] ?? fromISO;\<close>\<close>

definition detectedIso :: "lang \<Rightarrow> jsval \<Rightarrow> jsval" where
  "detectedIso fromISO body =
     coalesce (opt_index (opt_index (opt_index body 8) 0) 0) (coalesce (opt_index body 2) (lang_val fromISO))"

definition detect_language :: "lang \<Rightarrow> jsval \<Rightarrow> language_info" where
  "detect_language fromISO body =
     (let d = detectedIso fromISO body in
      if truthy d \<and> d \<noteq> lang_val fromISO
      then \<lparr>language_didYouMean = True, language_iso = d\<rparr>
      else \<lparr>language_didYouMean = False,
             language_iso = (if truthy d then d else lang_val fromISO)\<rparr>)"

text \<open>
  The spelling suggestion at index 7. \<^verbatim>\<open>str.replace\<close> is a method of strings only: for a
  truthy \<^verbatim>\<open>body[7][0]\<close> of any other type the call throws a \<^verbatim>\<open>TypeError\<close>.
\<close>

definition suggestion :: "jsval \<Rightarrow> error + text_info" where
  "suggestion body =
     (if isArray (opt_index body 7) \<and> truthy (index (index body 7) 0)
      then (case index (index body 7) 0 of
              JStr str \<Rightarrow>
                Inr \<lparr>text_autoCorrected = (index (index body 7) 5 = JBool True),
                     text_value = replace_all (ascii ''</i></b>'') (ascii '']'')
                                    (replace_all (ascii ''<b><i>'') (ascii ''['') str),
                     text_didYouMean = (index (index body 7) 5 \<noteq> JBool True)\<rparr>
            | _ \<Rightarrow> Inl TypeError)
      else Inr \<lparr>text_autoCorrected = False, text_value = [], text_didYouMean = False\<rparr>)"

text \<open>Lines 153 to 201 of \<^verbatim>\<open>translate\<close>: from the decoded body to the result.\<close>

definition parse_response :: "bool \<Rightarrow> lang \<Rightarrow> jsval \<Rightarrow> error + result" where
  "parse_response raw fromISO body =
     (case translated_text body of
        Inl e \<Rightarrow> Inl e
      | Inr t \<Rightarrow>
          (case suggestion body of
             Inl e \<Rightarrow> Inl e
           | Inr s \<Rightarrow>
               Inr \<lparr>result_text = t,
                    result_from = \<lparr>from_language = detect_language fromISO body, from_text = s\<rparr>,
                    result_raw = (if raw then body else JStr [])\<rparr>))"

section \<open>The chunk engine\<close>

text \<open>
  \<^verbatim>\<open>str.split(/(\s+)/)\<close>: the string is cut at every maximal run of white space, and the
  runs are kept (the capture group). \<open>split_word acc s\<close> scans a piece that is not white
  space, \<open>split_space acc s\<close> a run of white space; \<open>acc\<close> is the piece read so far. The
  pieces before the first run and after the last one are present also when empty.
\<close>

fun split_word :: "jsstring \<Rightarrow> jsstring \<Rightarrow> jsstring list"
  and split_space :: "jsstring \<Rightarrow> jsstring \<Rightarrow> jsstring list" where
  "split_word acc [] = [acc]"
| "split_word acc (c # cs) =
     (if is_space c then acc # split_space [c] cs else split_word (acc @ [c]) cs)"
| "split_space acc [] = [acc, []]"
| "split_space acc (c # cs) =
     (if is_space c then split_space (acc @ [c]) cs else acc # split_word [c] cs)"

definition split_ws :: "jsstring \<Rightarrow> jsstring list" where
  "split_ws str = split_word [] str"

text \<open>
  The inner loop of \<open>chunkText\<close>:
  \<^verbatim>\<open>while (current.length > limit) { parts.push(current.slice(0, limit)); current = current.slice(limit); }\<close>
  With \<open>limit = 0\<close> and a non-empty \<open>current\<close> the loop never ends, so the model is a
  partial function: \<open>None\<close> is a loop that does not return.
\<close>

partial_function (option) hard_split ::
  "nat \<Rightarrow> jsstring list \<Rightarrow> jsstring \<Rightarrow> (jsstring list \<times> jsstring) option" where
  "hard_split limit parts current =
     (if length current > limit
      then hard_split limit (parts @ [take limit current]) (drop limit current)
      else Some (parts, current))"

declare hard_split.simps [code]

text \<open>The \<^verbatim>\<open>for (const tok of tokens)\<close> loop, on the state \<open>(parts, current)\<close>.\<close>

fun chunk_loop ::
  "nat \<Rightarrow> jsstring list \<Rightarrow> jsstring list \<Rightarrow> jsstring \<Rightarrow> (jsstring list \<times> jsstring) option" where
  "chunk_loop limit [] parts current = Some (parts, current)"
| "chunk_loop limit (tok # toks) parts current =
     (if length (current @ tok) > limit \<and> length current > 0
      then (case hard_split limit (parts @ [current]) tok of
              None \<Rightarrow> None
            | Some (parts', current') \<Rightarrow> chunk_loop limit toks parts' current')
      else chunk_loop limit toks parts (current @ tok))"

definition chunkText :: "jsstring \<Rightarrow> nat \<Rightarrow> jsstring list option" where
  "chunkText str limit =
     (if length str \<le> limit then Some [str]
      else (case chunk_loop limit (split_ws str) [] [] of
              None \<Rightarrow> None
            | Some (parts, current) \<Rightarrow>
                Some (if current \<noteq> [] then parts @ [current] else parts)))"

section \<open>The collaborators\<close>

text \<open>
  The token provider answers with a name and a value, or with an \<^verbatim>\<open>Error\<close> object. The
  transport either fails (the message of the exception) or answers with a status code and
  a body; the body is what \<^verbatim>\<open>response.body.json()\<close> resolves to (\<open>None\<close> when it rejects)
  and what \<^verbatim>\<open>response.body.text()\<close> resolves to (\<open>None\<close> when it rejects).
\<close>

datatype token_reply = TokenError | Token jsstring jsstring

datatype http_request =
    HttpGet jsstring
  | HttpPost jsstring jsstring "(jsstring \<times> jsstring) list"

datatype http_reply =
    RequestFailed jsstring
  | Response nat "jsval option" "jsstring option"

text \<open>
  What \<^verbatim>\<open>translate\<close> is given from outside \<^verbatim>\<open>index.js\<close>: the language table
  (\<^verbatim>\<open>./languages\<close>), the token generator (\<^verbatim>\<open>./token\<close>), the transport
  (\<^verbatim>\<open>undici.request\<close>), the clock the cache reads, and the encoders
  \<^verbatim>\<open>querystring.stringify\<close>, \<^verbatim>\<open>URLSearchParams.toString\<close> and \<^verbatim>\<open>JSON.parse\<close>. The token
  generator and the transport act on an outside world of type \<open>'x\<close>.
\<close>

record 'x env =
  isSupported :: "lang \<Rightarrow> bool"
  getISOCode :: "lang \<Rightarrow> lang"
  generate :: "'x \<Rightarrow> jsstring \<Rightarrow> token_reply \<times> 'x"
  request :: "'x \<Rightarrow> http_request \<Rightarrow> http_reply \<times> 'x"
  clock :: "'x \<Rightarrow> nat"
  stringify :: "(jsstring \<times> jsval) list \<Rightarrow> jsstring"
  form_encode :: "(jsstring \<times> jsstring) list \<Rightarrow> jsstring"
  json_parse :: "jsstring \<Rightarrow> jsval option"

section \<open>The cache\<close>

text \<open>
  The module-level \<^verbatim>\<open>new NodeCache({ stdTTL: 86400 })\<close>: a map from keys to results, each
  entry with the time (in milliseconds) at which it expires, 86400 seconds after it was
  written. An expired entry is dropped by the read that finds it. Every interaction of
  \<^verbatim>\<open>translate\<close> with the cache, the token provider and the transport is recorded in the
  trace.
\<close>

record cache_entry =
  entry_value :: result
  entry_expires :: nat

datatype event =
    CacheGet jsstring
  | CacheSet jsstring
  | TokenCall jsstring
  | TransportCall http_request

record 'x world =
  cache :: "jsstring \<rightharpoonup> cache_entry"
  trace :: "event list"
  ext :: 'x

definition stdTTL :: nat where
  "stdTTL = 86400"

definition cache_get :: "'x env \<Rightarrow> 'x world \<Rightarrow> jsstring \<Rightarrow> result option \<times> 'x world" where
  "cache_get E w key =
     (case cache w key of
        None \<Rightarrow> (None, w\<lparr>trace := trace w @ [CacheGet key]\<rparr>)
      | Some e \<Rightarrow>
          if entry_expires e < clock E (ext w)
          then (None, w\<lparr>cache := (cache w)(key := None), trace := trace w @ [CacheGet key]\<rparr>)
          else (Some (entry_value e), w\<lparr>trace := trace w @ [CacheGet key]\<rparr>))"

definition cache_set :: "'x env \<Rightarrow> 'x world \<Rightarrow> jsstring \<Rightarrow> result \<Rightarrow> 'x world" where
  "cache_set E w key v =
     w\<lparr>cache := (cache w)(key \<mapsto>
          \<lparr>entry_value = v, entry_expires = clock E (ext w) + stdTTL * 1000\<rparr>),
       trace := trace w @ [CacheSet key]\<rparr>"

text \<open>An entry that a read at the present time of the world returns.\<close>

definition live :: "'x env \<Rightarrow> 'x world \<Rightarrow> jsstring \<Rightarrow> bool" where
  "live E w key =
     (case cache w key of None \<Rightarrow> False | Some e \<Rightarrow> clock E (ext w) \<le> entry_expires e)"

definition call_token :: "'x env \<Rightarrow> 'x world \<Rightarrow> jsstring \<Rightarrow> token_reply \<times> 'x world" where
  "call_token E w text =
     (case generate E (ext w) text of
        (reply, x) \<Rightarrow> (reply, w\<lparr>trace := trace w @ [TokenCall text], ext := x\<rparr>))"

definition call_transport :: "'x env \<Rightarrow> 'x world \<Rightarrow> http_request \<Rightarrow> http_reply \<times> 'x world" where
  "call_transport E w req =
     (case request E (ext w) req of
        (reply, x) \<Rightarrow> (reply, w\<lparr>trace := trace w @ [TransportCall req], ext := x\<rparr>))"

section \<open>Options, validation and normalisation\<close>

text \<open>
  The options object: each own property is present (\<open>Some\<close>) or absent. \<^verbatim>\<open>maxChunkChars\<close>
  is an integer when present. The argument of \<^verbatim>\<open>translate\<close> is such an object, or
  \<^verbatim>\<open>null\<close> (whose \<^verbatim>\<open>typeof\<close> is \<^verbatim>\<open>"object"\<close> too), or a value of another type.
\<close>

record options =
  opt_from :: "lang option"
  opt_to :: "lang option"
  opt_raw :: "jsval option"
  opt_maxChunkChars :: "int option"

datatype options_arg = NotAnObject | NullObject | Options options

definition empty_options :: options where
  "empty_options = \<lparr>opt_from = None, opt_to = None, opt_raw = None, opt_maxChunkChars = None\<rparr>"

text \<open>The read \<^verbatim>\<open>options.from\<close> of a property that may be absent.\<close>

definition read_lang :: "lang option \<Rightarrow> lang" where
  "read_lang l = (case l of None \<Rightarrow> LUndefined | Some v \<Rightarrow> v)"

definition read_val :: "jsval option \<Rightarrow> jsval" where
  "read_val v = (case v of None \<Rightarrow> JUndefined | Some x \<Rightarrow> x)"

definition not_supported_message :: "lang \<Rightarrow> jsstring" where
  "not_supported_message lang =
     ascii ''The language '' @ [0x27] @ template lang @ [0x27] @ ascii '' is not supported.''"

text \<open>
  Lines 27 to 33: \<^verbatim>\<open>from\<close> is checked first and \<^verbatim>\<open>to\<close> second, each only when truthy,
  and a later error replaces an earlier one.
\<close>

definition unsupported :: "'x env \<Rightarrow> lang \<Rightarrow> bool" where
  "unsupported E lang \<longleftrightarrow> truthy (lang_val lang) \<and> \<not> isSupported E lang"

definition validate :: "'x env \<Rightarrow> options \<Rightarrow> error option" where
  "validate E options =
     fold (\<lambda>lang error.
             if unsupported E lang then Some (Error 400 (not_supported_message lang)) else error)
          [read_lang (opt_from options), read_lang (opt_to options)] None"

text \<open>
  Lines 23 to 38: the options object in use, validated, with \<^verbatim>\<open>raw\<close> made a boolean, and
  the normalised codes \<open>fromISO\<close> and \<open>toISO\<close>. A property read on \<^verbatim>\<open>null\<close> throws.
\<close>

definition prepare :: "'x env \<Rightarrow> options_arg \<Rightarrow> error + (options \<times> lang \<times> lang)" where
  "prepare E arg =
     (case arg of
        NullObject \<Rightarrow> Inl TypeError
      | _ \<Rightarrow>
          (let options = (case arg of Options opts \<Rightarrow> opts | _ \<Rightarrow> empty_options) in
           case validate E options of
             Some e \<Rightarrow> Inl e
           | None \<Rightarrow>
               Inr (options\<lparr>opt_raw := Some (JBool (truthy (read_val (opt_raw options))))\<rparr>,
                    getISOCode E (case opt_from options of Some v \<Rightarrow> v | None \<Rightarrow> LStr (ascii ''auto'')),
                    getISOCode E (case opt_to options of Some v \<Rightarrow> v | None \<Rightarrow> LStr (ascii ''fr'')))))"

text \<open>The caller's argument after the call: an object has been updated in place.\<close>

definition caller_arg :: "options_arg \<Rightarrow> options \<Rightarrow> options_arg" where
  "caller_arg arg options = (case arg of Options opts \<Rightarrow> Options options | _ \<Rightarrow> arg)"


definition cache_key :: "lang \<Rightarrow> lang \<Rightarrow> jsstring \<Rightarrow> jsstring" where
  "cache_key fromISO toISO text =
     template fromISO @ ascii ''-'' @ template toISO @ ascii ''-'' @ text"

text \<open>\<^verbatim>\<open>Math.max(1, Number(options.maxChunkChars) || 4500)\<close>\<close>

definition maxChunkChars :: "options \<Rightarrow> nat" where
  "maxChunkChars options =
     (case opt_maxChunkChars options of
        None \<Rightarrow> 4500
      | Some n \<Rightarrow> nat (max 1 (if n = 0 then 4500 else n)))"

definition raw_flag :: "options \<Rightarrow> bool" where
  "raw_flag options = truthy (read_val (opt_raw options))"

section \<open>The request builder\<close>

text \<open>
  The keys of an object are enumerated with the array indices first, in ascending order,
  then the other keys in the order of their creation. An array index is the canonical
  decimal form of a number below \<open>2^32 - 1\<close>.
\<close>

definition is_digit :: "jschar \<Rightarrow> bool" where
  "is_digit c \<longleftrightarrow> 0x30 \<le> c \<and> c \<le> 0x39"

definition digits_value :: "jsstring \<Rightarrow> nat" where
  "digits_value s = foldl (\<lambda>n c. 10 * n + (unat c - 48)) 0 s"

definition is_array_index :: "jsstring \<Rightarrow> bool" where
  "is_array_index k \<longleftrightarrow>
     k \<noteq> [] \<and> list_all is_digit k \<and> (k = ascii ''0'' \<or> hd k \<noteq> 0x30) \<and> digits_value k < 2 ^ 32 - 1"

definition obj_set :: "(jsstring \<times> jsval) list \<Rightarrow> jsstring \<Rightarrow> jsval \<Rightarrow> (jsstring \<times> jsval) list" where
  "obj_set kvs k v =
     (if k \<in> fst ` set kvs then map (\<lambda>(k', v'). if k' = k then (k', v) else (k', v')) kvs
      else if is_array_index k
      then takeWhile (\<lambda>(k', v'). is_array_index k' \<and> digits_value k' < digits_value k) kvs
           @ [(k, v)]
           @ dropWhile (\<lambda>(k', v'). is_array_index k' \<and> digits_value k' < digits_value k) kvs
      else kvs @ [(k, v)])"

definition obj_delete :: "(jsstring \<times> jsval) list \<Rightarrow> jsstring \<Rightarrow> (jsstring \<times> jsval) list" where
  "obj_delete kvs k = filter (\<lambda>(k', v'). k' \<noteq> k) kvs"

definition baseUrl :: jsstring where
  "baseUrl = ascii ''https://translate.google.com/translate_a/single''"

text \<open>The object \<^verbatim>\<open>data\<close> of lines 94 to 108, the token's pair set last under its computed key.\<close>

definition request_data :: "lang \<Rightarrow> lang \<Rightarrow> jsstring \<Rightarrow> jsstring \<Rightarrow> jsstring \<Rightarrow> (jsstring \<times> jsval) list" where
  "request_data fromISO toISO text name val =
     obj_set
       [(ascii ''client'', JStr (ascii ''gtx'')),
        (ascii ''sl'', lang_val fromISO),
        (ascii ''tl'', lang_val toISO),
        (ascii ''hl'', lang_val toISO),
        (ascii ''dt'', JArr (map (\<lambda>s. JStr (ascii s))
           [''at'', ''bd'', ''ex'', ''ld'', ''md'', ''qca'', ''rw'', ''rm'', ''ss'', ''t''])),
        (ascii ''ie'', JStr (ascii ''UTF-8'')),
        (ascii ''oe'', JStr (ascii ''UTF-8'')),
        (ascii ''otf'', JNum 1),
        (ascii ''ssel'', JNum 0),
        (ascii ''tsel'', JNum 0),
        (ascii ''kc'', JNum 7),
        (ascii ''q'', JStr text)]
       name (JStr val)"

definition get_url :: "'x env \<Rightarrow> lang \<Rightarrow> lang \<Rightarrow> jsstring \<Rightarrow> jsstring \<Rightarrow> jsstring \<Rightarrow> jsstring" where
  "get_url E fromISO toISO text name val =
     baseUrl @ ascii ''?'' @ stringify E (request_data fromISO toISO text name val)"

definition post_url :: "'x env \<Rightarrow> lang \<Rightarrow> lang \<Rightarrow> jsstring \<Rightarrow> jsstring \<Rightarrow> jsstring \<Rightarrow> jsstring" where
  "post_url E fromISO toISO text name val =
     baseUrl @ ascii ''?''
       @ stringify E (obj_delete (request_data fromISO toISO text name val) (ascii ''q''))"

definition post_headers :: "(jsstring \<times> jsstring) list" where
  "post_headers =
     [(ascii ''Content-Type'', ascii ''application/x-www-form-urlencoded;charset=UTF-8'')]"

text \<open>Lines 110 to 127: the one choice between the two request forms.\<close>

definition build_request :: "'x env \<Rightarrow> lang \<Rightarrow> lang \<Rightarrow> jsstring \<Rightarrow> jsstring \<Rightarrow> jsstring \<Rightarrow> http_request" where
  "build_request E fromISO toISO text name val =
     (if length (get_url E fromISO toISO text name val) > 2048
      then HttpPost (post_url E fromISO toISO text name val)
             (form_encode E [(ascii ''q'', text)]) post_headers
      else HttpGet (get_url E fromISO toISO text name val))"

section \<open>One request: token, transport, decoding, parsing\<close>

text \<open>
  Lines 140 to 151: the body as JSON, else its text through \<^verbatim>\<open>JSON.parse\<close>; the error
  502 when that parse fails too.
\<close>

definition decode_body :: "'x env \<Rightarrow> jsval option \<Rightarrow> jsstring option \<Rightarrow> error + jsval" where
  "decode_body E as_json as_text =
     (case as_json of
        Some body \<Rightarrow> Inr body
      | None \<Rightarrow>
          (case as_text of
             None \<Rightarrow> Inl BodyUnreadable
           | Some txt \<Rightarrow>
               (case json_parse E txt of
                  None \<Rightarrow> Inl (Error 502 (ascii ''Unexpected translate response format''))
                | Some body \<Rightarrow> Inr body)))"

text \<open>Lines 87 to 204, the path of a text that is not cut into chunks.\<close>

definition fetch ::
  "'x env \<Rightarrow> 'x world \<Rightarrow> jsstring \<Rightarrow> lang \<Rightarrow> lang \<Rightarrow> jsstring \<Rightarrow> bool \<Rightarrow> (error + result) \<times> 'x world" where
  "fetch E w cacheKey fromISO toISO text raw =
     (case call_token E w text of
        (TokenError, w1) \<Rightarrow> (Inl (Error 503 (ascii ''Failed to generate translate token'')), w1)
      | (Token name val, w1) \<Rightarrow>
          if name = [] \<or> val = []
          then (Inl (Error 503 (ascii ''Failed to generate translate token'')), w1)
          else
            (case call_transport E w1 (build_request E fromISO toISO text name val) of
               (RequestFailed msg, w2) \<Rightarrow>
                 (Inl (Error 503 (ascii ''Translate request failed: '' @ msg)), w2)
             | (Response status as_json as_text, w2) \<Rightarrow>
                 if status \<noteq> 0 \<and> status \<ge> 400
                 then (Inl (Error status
                         (ascii ''Translate request failed with status '' @ show_nat status)), w2)
                 else
                   (case decode_body E as_json as_text of
                      Inl e \<Rightarrow> (Inl e, w2)
                    | Inr body \<Rightarrow>
                        (case parse_response raw fromISO body of
                           Inl e \<Rightarrow> (Inl e, w2)
                         | Inr result \<Rightarrow> (Inr result, cache_set E w2 cacheKey result)))))"

section \<open>The orchestrator\<close>

text \<open>The object \<^verbatim>\<open>merged\<close> of lines 72 to 76 and one round of the loop of lines 77 to 82.\<close>

definition merged_init :: "lang \<Rightarrow> bool \<Rightarrow> result" where
  "merged_init fromISO raw =
     \<lparr>result_text = [],
      result_from =
        \<lparr>from_language = \<lparr>language_didYouMean = False, language_iso = lang_val fromISO\<rparr>,
         from_text = \<lparr>text_autoCorrected = False, text_value = [], text_didYouMean = False\<rparr>\<rparr>,
      result_raw = (if raw then JArr [] else JStr [])\<rparr>"

definition merge_chunk :: "bool \<Rightarrow> nat \<Rightarrow> result \<Rightarrow> result \<Rightarrow> result" where
  "merge_chunk raw i merged r =
     \<lparr>result_text = result_text merged @ result_text r,
      result_from = (if i = 0 then result_from r else result_from merged),
      result_raw = (if raw then JArr (elements (result_raw merged) @ [result_raw r])
                    else result_raw merged)\<rparr>"

definition chunk_options :: "lang \<Rightarrow> lang \<Rightarrow> bool \<Rightarrow> nat \<Rightarrow> options" where
  "chunk_options fromISO toISO raw limit =
     \<lparr>opt_from = Some fromISO, opt_to = Some toISO, opt_raw = Some (JBool raw),
      opt_maxChunkChars = Some (int limit)\<rparr>"

section \<open>Properties of the chunk engine\<close>

lemma concat_split:
  "concat (split_word acc s) = acc @ s"
  "concat (split_space acc s) = acc @ s"
  by (induction acc s and acc s rule: split_word_split_space.induct) simp_all

lemma concat_split_ws: "concat (split_ws str) = str"
  by (simp add: split_ws_def concat_split)

text \<open>
  For a positive limit the inner loop returns: it moves slices of exactly \<open>limit\<close>
  code units to \<open>parts\<close> and leaves at most \<open>limit\<close> code units in \<open>current\<close>.
\<close>

lemma hard_split_returns:
  assumes "0 < limit"
  shows "\<exists>new rest. hard_split limit parts current = Some (parts @ new, rest)
           \<and> concat new @ rest = current
           \<and> length rest \<le> limit
           \<and> (\<forall>p \<in> set new. length p = limit)"
proof (induction "length current" arbitrary: parts current rule: less_induct)
  case less
  show ?case
  proof (cases "length current > limit")
    case False
    then have "hard_split limit parts current = Some (parts @ [], current)"
      by (subst hard_split.simps) simp
    with False show ?thesis by force
  next
    case True
    with assms have "length (drop limit current) < length current" by simp
    from less [OF this, of "parts @ [take limit current]"]
    obtain new rest where
      h: "hard_split limit (parts @ [take limit current]) (drop limit current)
            = Some ((parts @ [take limit current]) @ new, rest)"
      and c: "concat new @ rest = drop limit current"
      and r: "length rest \<le> limit"
      and p: "\<forall>p \<in> set new. length p = limit"
      by blast
    from True h have "hard_split limit parts current = Some (parts @ (take limit current # new), rest)"
      by (subst hard_split.simps) simp
    moreover from c have "concat (take limit current # new) @ rest = current"
      by simp
    moreover from True p have "\<forall>p \<in> set (take limit current # new). length p = limit"
      by simp
    ultimately show ?thesis using r by blast
  qed
qed

lemma chunk_loop_returns:
  assumes "0 < limit"
  shows "\<exists>new rest. chunk_loop limit toks parts current = Some (parts @ new, rest)
           \<and> concat new @ rest = current @ concat toks
           \<and> [] \<notin> set new"
proof (induction toks arbitrary: parts current)
  case Nil
  have "chunk_loop limit [] parts current = Some (parts @ [], current)" by simp
  then show ?case by force
next
  case (Cons tok toks)
  show ?case
  proof (cases "length (current @ tok) > limit \<and> length current > 0")
    case False
    from Cons [of parts "current @ tok"] obtain new rest where
      "chunk_loop limit toks parts (current @ tok) = Some (parts @ new, rest)"
      "concat new @ rest = (current @ tok) @ concat toks"
      "[] \<notin> set new"
      by blast
    with False show ?thesis by auto
  next
    case True
    from hard_split_returns [OF assms, of "parts @ [current]" tok] obtain new1 rest1 where
      h: "hard_split limit (parts @ [current]) tok = Some ((parts @ [current]) @ new1, rest1)"
      and c1: "concat new1 @ rest1 = tok"
      and p1: "\<forall>p \<in> set new1. length p = limit"
      by blast
    from Cons [of "(parts @ [current]) @ new1" rest1] obtain new2 rest2 where
      l: "chunk_loop limit toks ((parts @ [current]) @ new1) rest1
            = Some (((parts @ [current]) @ new1) @ new2, rest2)"
      and c2: "concat new2 @ rest2 = rest1 @ concat toks"
      and p2: "[] \<notin> set new2"
      by blast
    from True h l have
      "chunk_loop limit (tok # toks) parts current = Some (parts @ (current # new1 @ new2), rest2)"
      by simp
    moreover from c1 c2 have
      "concat (current # new1 @ new2) @ rest2 = current @ concat (tok # toks)"
      by (metis append.assoc concat.simps(2) concat_append)
    moreover have "[] \<notin> set (current # new1 @ new2)"
      using True p1 p2 assms by auto
    ultimately show ?thesis
      by blast
  qed
qed

lemma chunkText_returns:
  assumes "0 < limit"
  shows "\<exists>chunks. chunkText str limit = Some chunks \<and> concat chunks = str
           \<and> (1 < length chunks \<longrightarrow> [] \<notin> set chunks)"
proof (cases "length str \<le> limit")
  case True
  then show ?thesis by (simp add: chunkText_def)
next
  case False
  from chunk_loop_returns [OF assms, of "split_ws str" "[]" "[]"] obtain new rest where
    l: "chunk_loop limit (split_ws str) [] [] = Some (new, rest)"
    and c: "concat new @ rest = str"
    and p: "[] \<notin> set new"
    by (auto simp: concat_split_ws)
  show ?thesis
  proof (cases "rest = []")
    case True
    with False l c p show ?thesis by (simp add: chunkText_def)
  next
    case nonempty: False
    with False l c p show ?thesis by (simp add: chunkText_def)
  qed
qed

lemma length_le_concat: "c \<in> set chunks \<Longrightarrow> length c \<le> length (concat chunks)"
  by (induction chunks) auto

text \<open>When the text is cut into several chunks, each chunk is shorter than the text.\<close>

lemma chunkText_shorter:
  assumes "0 < limit" and "chunkText str limit = Some chunks" and "1 < length chunks"
    and "c \<in> set chunks"
  shows "length c < length str"
proof -
  from chunkText_returns [OF assms(1), of str] assms(2,3)
  have cc: "concat chunks = str" and ne: "[] \<notin> set chunks" by auto
  from assms(4) obtain pre post where sp: "chunks = pre @ c # post"
    by (auto simp: in_set_conv_decomp)
  with assms(3) have "pre \<noteq> [] \<or> post \<noteq> []" by auto
  then obtain d where d: "d \<in> set (pre @ post)" by (cases pre; cases post) auto
  with ne sp have "0 < length d" by auto
  with length_le_concat [OF d] have "0 < length (concat (pre @ post))" by linarith
  with cc sp show ?thesis by auto
qed

text \<open>
  What the termination of \<open>translate\<close> rests on: the limit is positive, so a text is
  cut into several chunks only when each of them is shorter than the text, and the loop
  goes down its list of chunks.
\<close>

lemma maxChunkChars_pos: "0 < maxChunkChars options"
  by (auto simp: maxChunkChars_def max_def split: option.split)

definition longest :: "jsstring list \<Rightarrow> nat" where
  "longest chunks = foldr (\<lambda>c n. max (length c) n) chunks 0"

lemma longest_bound: "(\<And>c. c \<in> set chunks \<Longrightarrow> length c < n) \<Longrightarrow> 0 < n \<Longrightarrow> longest chunks < n"
  by (induction chunks) (auto simp: longest_def)

text \<open>
  \<^verbatim>\<open>translate(text, options)\<close>, on the world it runs in. It returns the result or the
  error it throws, the world after the call, and the caller's argument after the call.
  \<open>translate_chunks\<close> is the loop of lines 77 to 82 from index \<open>i\<close> on; each round calls
  \<open>translate\<close> on one chunk, in the world the round before left.
\<close>

function translate ::
    "'x env \<Rightarrow> 'x world \<Rightarrow> jsstring \<Rightarrow> options_arg \<Rightarrow> (error + result) \<times> 'x world \<times> options_arg"
  and translate_chunks ::
    "'x env \<Rightarrow> 'x world \<Rightarrow> lang \<Rightarrow> lang \<Rightarrow> bool \<Rightarrow> nat \<Rightarrow> jsstring list \<Rightarrow> nat \<Rightarrow> result
       \<Rightarrow> (error + result) \<times> 'x world" where
  "translate E w text arg =
     (case prepare E arg of
        Inl e \<Rightarrow> (Inl e, w, arg)
      | Inr (options, fromISO, toISO) \<Rightarrow>
          (case cache_get E w (cache_key fromISO toISO text) of
             (Some cachedResult, w1) \<Rightarrow> (Inr cachedResult, w1, caller_arg arg options)
           | (None, w1) \<Rightarrow>
               (case chunkText text (maxChunkChars options) of
                  None \<Rightarrow> (Inl NoReturn, w1, caller_arg arg options)
                | Some chunks \<Rightarrow>
                    if length chunks > 1
                    then
                      (case translate_chunks E w1 fromISO toISO (raw_flag options)
                              (maxChunkChars options) chunks 0
                              (merged_init fromISO (raw_flag options)) of
                         (Inl e, w2) \<Rightarrow> (Inl e, w2, caller_arg arg options)
                       | (Inr merged, w2) \<Rightarrow>
                           (Inr merged, cache_set E w2 (cache_key fromISO toISO text) merged,
                            caller_arg arg options))
                    else
                      (case fetch E w1 (cache_key fromISO toISO text) fromISO toISO text
                              (raw_flag options) of
                         (outcome, w2) \<Rightarrow> (outcome, w2, caller_arg arg options)))))"
| "translate_chunks E w fromISO toISO raw limit [] i merged = (Inr merged, w)"
| "translate_chunks E w fromISO toISO raw limit (chunk # chunks) i merged =
     (case translate E w chunk (Options (chunk_options fromISO toISO raw limit)) of
        (Inl e, w', a) \<Rightarrow> (Inl e, w')
      | (Inr r, w', a) \<Rightarrow>
          translate_chunks E w' fromISO toISO raw limit chunks (Suc i) (merge_chunk raw i merged r))"
  by pat_completeness auto

termination
proof (relation "inv_image (less_than <*lex*> less_than)
    (\<lambda>c. case c of
       Inl (E, w, text, arg) \<Rightarrow> (2 * length text, 0)
     | Inr (E, w, fromISO, toISO, raw, limit, chunks, i, merged) \<Rightarrow>
         (2 * longest chunks + 1, length chunks))", goal_cases)
  case 1
  show ?case by (intro wf_inv_image wf_lex_prod wf_less_than)
next
  case (2 E w str arg b opts y fromISO toISO cached w1 chunks)
  have "longest chunks < length str"
  proof (rule longest_bound)
    fix c assume "c \<in> set chunks"
    with 2 show "length c < length str"
      using chunkText_shorter [OF maxChunkChars_pos] by blast
  next
    from 2 have "\<not> length str \<le> maxChunkChars opts"
      by (auto simp: chunkText_def)
    then show "0 < length str" by (cases str) auto
  qed
  then show ?case by simp
next
  case 3
  then show ?case by (auto simp: longest_def max_def)
next
  case 4
  then show ?case by (auto simp: longest_def max_def)
qed

declare translate.simps [simp del]

section \<open>An example environment\<close>

text \<open>
  Concrete collaborators on which the definitions can be run. The language table knows
  three codes; as \<^verbatim>\<open>index.d.ts\<close> declares, \<open>getISOCode\<close> answers \<^verbatim>\<open>false\<close> or \<^verbatim>\<open>null\<close> for
  a code it cannot resolve (\<^verbatim>\<open>false\<close> for a falsy argument), and a code is supported when
  it resolves. The outside world is a clock in milliseconds; the token provider and the
  transport give one fixed answer each and take one millisecond. \<open>example_stringify\<close>
  writes the pairs as \<^verbatim>\<open>querystring.stringify\<close> does, leaving out the percent-encoding.
\<close>

definition example_getISOCode :: "lang \<Rightarrow> lang" where
  "example_getISOCode l =
     (case l of
        LStr s \<Rightarrow>
          if s = [] then LFalse
          else if s \<in> set (map ascii [''auto'', ''en'', ''fr'']) then LStr s
          else LNull
      | _ \<Rightarrow> LFalse)"

definition example_isSupported :: "lang \<Rightarrow> bool" where
  "example_isSupported l = (case example_getISOCode l of LStr s \<Rightarrow> True | _ \<Rightarrow> False)"

fun example_primitive :: "jsval \<Rightarrow> jsstring" where
  "example_primitive (JStr s) = s"
| "example_primitive (JNum n) = show_int n"
| "example_primitive (JBool b) = (if b then ascii ''true'' else ascii ''false'')"
| "example_primitive v = []"

fun example_pair :: "jsstring \<times> jsval \<Rightarrow> jsstring list" where
  "example_pair (k, JArr xs) = map (\<lambda>x. k @ ascii ''='' @ example_primitive x) xs"
| "example_pair (k, v) = [k @ ascii ''='' @ example_primitive v]"

fun join_amp :: "jsstring list \<Rightarrow> jsstring" where
  "join_amp [] = []"
| "join_amp [x] = x"
| "join_amp (x # y # ys) = x @ ascii ''&'' @ join_amp (y # ys)"

definition example_stringify :: "(jsstring \<times> jsval) list \<Rightarrow> jsstring" where
  "example_stringify kvs = join_amp (concat (map example_pair kvs))"

definition example_env :: "token_reply \<Rightarrow> http_reply \<Rightarrow> nat env" where
  "example_env token reply =
     \<lparr>isSupported = example_isSupported,
      getISOCode = example_getISOCode,
      generate = (\<lambda>x text. (token, x + 1)),
      request = (\<lambda>x req. (reply, x + 1)),
      clock = (\<lambda>x. x),
      stringify = example_stringify,
      form_encode = (\<lambda>kvs. example_stringify (map (\<lambda>(k, v). (k, JStr v)) kvs)),
      json_parse = (\<lambda>s. None)\<rparr>"

definition empty_world :: "nat world" where
  "empty_world = \<lparr>cache = Map.empty, trace = [], ext = 0\<rparr>"

definition example_token :: token_reply where
  "example_token = Token (ascii ''tk'') (ascii ''1.2'')"

definition example_body :: jsval where
  "example_body =
     JArr [JArr [JArr [JStr (ascii ''Hello''), JStr (ascii ''Bonjour'')]], JNull, JStr (ascii ''fr'')]"

definition example_result :: result where
  "example_result =
     \<lparr>result_text = ascii ''Hello'',
      result_from =
        \<lparr>from_language = \<lparr>language_didYouMean = True, language_iso = JStr (ascii ''fr'')\<rparr>,
         from_text = \<lparr>text_autoCorrected = False, text_value = [], text_didYouMean = False\<rparr>\<rparr>,
      result_raw = JStr []\<rparr>"

text \<open>Every definition above, for running the model on a concrete input.\<close>

lemmas run_defs =
  translate.simps prepare_def validate_def unsupported_def read_lang_def read_val_def
  empty_options_def caller_arg_def cache_key_def maxChunkChars_def raw_flag_def cache_get_def
  cache_set_def call_token_def call_transport_def chunkText_def fetch_def
  build_request_def get_url_def post_url_def request_data_def obj_set_def obj_delete_def
  is_array_index_def is_digit_def digits_value_def baseUrl_def decode_body_def
  parse_response_def translated_text_def suggestion_def detect_language_def detectedIso_def
  opt_index_def coalesce_def example_env_def example_getISOCode_def example_isSupported_def
  example_stringify_def example_token_def example_body_def example_result_def empty_world_def
  stdTTL_def ascii_def show_int_def show_nat.simps not_supported_message_def split_ws_def
  is_space_def hard_split.simps merged_init_def merge_chunk_def chunk_options_def
  post_headers_def

section \<open>Facts about the cache and the single request\<close>

lemma cache_get_hit:
  assumes "cache_get E w k = (Some r, w1)"
  shows "w1 = w\<lparr>trace := trace w @ [CacheGet k]\<rparr>"
    and "\<exists>e. cache w k = Some e \<and> entry_value e = r"
  using assms by (auto simp: cache_get_def split: option.splits if_splits)

lemma cache_get_live:
  assumes "cache w k = Some e" and "clock E (ext w) \<le> entry_expires e"
  shows "cache_get E w k = (Some (entry_value e), w\<lparr>trace := trace w @ [CacheGet k]\<rparr>)"
  using assms by (simp add: cache_get_def)


lemma cache_set_entry: "\<exists>e. cache (cache_set E w k v) k = Some e \<and> entry_value e = v"
  by (simp add: cache_set_def)


lemma fetch_caches:
  assumes "fetch E w k fromISO toISO str raw = (Inr r, w')"
  shows "\<exists>e. cache w' k = Some e \<and> entry_value e = r"
  using assms cache_set_entry
  by (auto simp: fetch_def split: prod.splits token_reply.splits http_reply.splits if_splits sum.splits)



text \<open>
  The error 502 is raised exactly when the body is not JSON and its text does not parse
  either; no other coded error comes from decoding.
\<close>

lemma decode_body_502:
  "decode_body E as_json as_text = Inl (Error code msg) \<longleftrightarrow>
     as_json = None \<and> (\<exists>t. as_text = Some t \<and> json_parse E t = None)
     \<and> code = 502 \<and> msg = ascii ''Unexpected translate response format''"
  by (auto simp: decode_body_def split: option.splits)

section \<open>Facts about the orchestrator\<close>

text \<open>A call that returns a result leaves that result in the cache, under the key of the call.\<close>

lemma translate_caches:
  assumes "translate E w str arg = (Inr r, w', a')"
    and "prepare E arg = Inr (options, fromISO, toISO)"
  shows "\<exists>e. cache w' (cache_key fromISO toISO str) = Some e \<and> entry_value e = r"
proof (cases "cache_get E w (cache_key fromISO toISO str)")
  case (Pair cached w1)
  show ?thesis
  proof (cases cached)
    case (Some c)
    with Pair assms have "r = c" "w' = w1"
      by (simp_all add: translate.simps)
    with cache_get_hit [of E w "cache_key fromISO toISO str" c w1] Pair Some
    show ?thesis by auto
  next
    case None
    obtain chunks where ch: "chunkText str (maxChunkChars options) = Some chunks"
      using chunkText_returns [OF maxChunkChars_pos, of str options] by blast
    show ?thesis
    proof (cases "1 < length chunks")
      case True
      with assms Pair None ch show ?thesis
        using cache_set_entry
        by (auto simp: translate.simps split: prod.splits sum.splits)
    next
      case False
      with assms Pair None ch show ?thesis
        using fetch_caches
        by (auto simp: translate.simps split: prod.splits sum.splits)
    qed
  qed
qed






text \<open>Every call settles: the outcome is a result or an error that the source throws.\<close>

lemma extract_text_returns: "extract_text acc objs \<noteq> Inl NoReturn"
  by (induction objs arbitrary: acc) (auto split: option.splits)

lemma suggestion_returns: "suggestion body \<noteq> Inl NoReturn"
  by (cases "index (index body 7) 0") (auto simp: suggestion_def)

lemma parse_response_returns: "parse_response raw fromISO body \<noteq> Inl NoReturn"
  using extract_text_returns [of "[]" "elements (index body 0)"] suggestion_returns [of body]
  by (auto simp: parse_response_def translated_text_def split: sum.splits)

lemma decode_body_returns: "decode_body E as_json as_text \<noteq> Inl NoReturn"
  by (auto simp: decode_body_def split: option.splits)

lemma fetch_returns: "fst (fetch E w k fromISO toISO str raw) \<noteq> Inl NoReturn"
  by (auto simp: fetch_def parse_response_returns decode_body_returns
      split: prod.splits token_reply.splits http_reply.splits sum.splits)

lemma prepare_returns: "prepare E arg \<noteq> Inl NoReturn"
  by (auto simp: prepare_def validate_def Let_def split: options_arg.splits option.splits)

lemma translate_returns:
  "fst (translate E w str arg) \<noteq> Inl NoReturn"
  "fst (translate_chunks E w fromISO toISO raw limit chunks i merged) \<noteq> Inl NoReturn"
proof (induction E w str arg and E w fromISO toISO raw limit chunks i merged
    rule: translate_translate_chunks.induct)
  case (1 E w str arg)
  show ?case
  proof (cases "prepare E arg")
    case (Inl e)
    with prepare_returns [of E arg] show ?thesis by (simp add: translate.simps)
  next
    case (Inr p)
    then obtain options fromISO toISO where p: "prepare E arg = Inr (options, fromISO, toISO)"
      by (cases p) auto
    obtain cached w1 where cg: "cache_get E w (cache_key fromISO toISO str) = (cached, w1)"
      by (cases "cache_get E w (cache_key fromISO toISO str)")
    obtain chunks where ch: "chunkText str (maxChunkChars options) = Some chunks"
      using chunkText_returns [OF maxChunkChars_pos, of str options] by blast
    show ?thesis
    proof (cases cached)
      case (Some c)
      with p cg show ?thesis by (simp add: translate.simps)
    next
      case None
      show ?thesis
      proof (cases "1 < length chunks")
        case True
        from "1.IH" [OF p refl refl cg [symmetric] None ch True] p cg None ch True
        show ?thesis
          by (auto simp: translate.simps split: prod.splits sum.splits)
      next
        case False
        with p cg None ch
          fetch_returns [of E w1 "cache_key fromISO toISO str" fromISO toISO str "raw_flag options"]
        show ?thesis
          by (auto simp: translate.simps split: prod.splits)
      qed
    qed
  qed
next
  case (2 E w fromISO toISO raw limit i merged)
  show ?case by simp
next
  case (3 E w fromISO toISO raw limit chunk chunks i merged)
  obtain out w' a where
    tr: "translate E w chunk (Options (chunk_options fromISO toISO raw limit)) = (out, w', a)"
    by (cases "translate E w chunk (Options (chunk_options fromISO toISO raw limit))")
  show ?case
  proof (cases out)
    case (Inl e)
    with tr "3.IH"(1) show ?thesis by simp
  next
    case (Inr r)
    from "3.IH"(2) [OF tr [symmetric] Inr refl] tr Inr show ?thesis by simp
  qed
qed

section \<open>The claims\<close>

text \<open>
  C1. For every input string and every positive limit, \<open>chunkText\<close> returns, and the
  chunks it returns, concatenated in order, are exactly the input string, white space
  included.
\<close>

theorem chunkText_reconstruction:
  "0 < limit \<Longrightarrow> \<exists>chunks. chunkText str limit = Some chunks \<and> concat chunks = str"
  using chunkText_returns [of limit str] by blast

theorem chunkText_reconstruction_witness:
  "(0::nat) < 3 \<and> chunkText (ascii ''ab cd'') 3 = Some [ascii ''ab '', ascii ''cd'']
     \<and> concat [ascii ''ab '', ascii ''cd''] = ascii ''ab cd''"
  using chunkText_reconstruction [of 3 "ascii ''ab cd''"]
  by (simp add: chunkText_def split_ws_def ascii_def is_space_def hard_split.simps)

text \<open>
  C2. The claim is that no chunk is longer than the limit. The hard split of the source
  sits in the branch that flushes a non-empty \<open>current\<close>; a token that arrives while
  \<open>current\<close> is empty (the first token of the text) is appended in the other branch
  and is never split. With limit 3 the text \<^verbatim>\<open>"abcdefg hi"\<close> gives the chunk
  \<^verbatim>\<open>"abcdefg"\<close> of 7 code units.
\<close>

theorem chunkText_first_token_not_split:
  "chunkText (ascii ''abcdefg hi'') 3 = Some [ascii ''abcdefg'', ascii '' hi'']
     \<and> length (ascii ''abcdefg'') = 7"
  by (simp add: chunkText_def split_ws_def ascii_def is_space_def hard_split.simps)

text \<open>
  C3. Two calls with the same normalised \<open>(fromISO, toISO, text)\<close>: when the first one
  returned a result and the entry it left under the key is still live at the second call,
  the second call returns the same result, and all it does is one read of the cache: no
  call of the token provider, none of the transport.
\<close>

theorem cache_idempotence:
  assumes first: "translate E w str arg = (Inr r, w', a')"
    and norm1: "prepare E arg = Inr (options, fromISO, toISO)"
    and norm2: "prepare E arg2 = Inr (options2, fromISO, toISO)"
    and same: "cache w2 (cache_key fromISO toISO str) = cache w' (cache_key fromISO toISO str)"
    and live: "live E w2 (cache_key fromISO toISO str)"
  shows "translate E w2 str arg2 =
           (Inr r, w2\<lparr>trace := trace w2 @ [CacheGet (cache_key fromISO toISO str)]\<rparr>,
            caller_arg arg2 options2)"
proof -
  from translate_caches [OF first norm1] obtain e where
    e: "cache w' (cache_key fromISO toISO str) = Some e" "entry_value e = r" by blast
  with same live have "clock E (ext w2) \<le> entry_expires e"
    by (simp add: live_def)
  with e same have "cache_get E w2 (cache_key fromISO toISO str)
      = (Some r, w2\<lparr>trace := trace w2 @ [CacheGet (cache_key fromISO toISO str)]\<rparr>)"
    using cache_get_live [of w2 "cache_key fromISO toISO str" e E] by simp
  with norm2 show ?thesis
    by (simp add: translate.simps)
qed

theorem cache_idempotence_witness:
  "live (example_env example_token (Response 200 (Some example_body) None))
     ((fst (snd (translate (example_env example_token (Response 200 (Some example_body) None))
        empty_world (ascii ''hi'') NotAnObject)))\<lparr>ext := 5000\<rparr>)
     (ascii ''auto-fr-hi'')
   \<and> fst (translate (example_env example_token (Response 200 (Some example_body) None))
        ((fst (snd (translate (example_env example_token (Response 200 (Some example_body) None))
           empty_world (ascii ''hi'') NotAnObject)))\<lparr>ext := 5000\<rparr>)
        (ascii ''hi'')
        (Options \<lparr>opt_from = Some (LStr (ascii ''auto'')), opt_to = Some (LStr (ascii ''fr'')),
                   opt_raw = None, opt_maxChunkChars = None\<rparr>))
     = Inr example_result
   \<and> trace (fst (snd (translate (example_env example_token (Response 200 (Some example_body) None))
        ((fst (snd (translate (example_env example_token (Response 200 (Some example_body) None))
           empty_world (ascii ''hi'') NotAnObject)))\<lparr>ext := 5000\<rparr>)
        (ascii ''hi'')
        (Options \<lparr>opt_from = Some (LStr (ascii ''auto'')), opt_to = Some (LStr (ascii ''fr'')),
                   opt_raw = None, opt_maxChunkChars = None\<rparr>))))
     = [CacheGet (ascii ''auto-fr-hi''), TokenCall (ascii ''hi''),
        TransportCall (build_request (example_env example_token (Response 200 (Some example_body) None))
          (LStr (ascii ''auto'')) (LStr (ascii ''fr'')) (ascii ''hi'') (ascii ''tk'') (ascii ''1.2'')),
        CacheSet (ascii ''auto-fr-hi''), CacheGet (ascii ''auto-fr-hi'')]"
proof -
  let ?E = "example_env example_token (Response 200 (Some example_body) None)"
  let ?w' = "fst (snd (translate ?E empty_world (ascii ''hi'') NotAnObject))"
  let ?opts2 = "\<lparr>opt_from = Some (LStr (ascii ''auto'')), opt_to = Some (LStr (ascii ''fr'')),
                 opt_raw = None, opt_maxChunkChars = None\<rparr>"
  have key: "cache_key (LStr (ascii ''auto'')) (LStr (ascii ''fr'')) (ascii ''hi'') = ascii ''auto-fr-hi''"
    by (simp add: cache_key_def ascii_def)
  have "fst (translate ?E empty_world (ascii ''hi'') NotAnObject) = Inr example_result"
    and "snd (snd (translate ?E empty_world (ascii ''hi'') NotAnObject)) = NotAnObject"
    by (simp_all add: run_defs)
  then have first: "translate ?E empty_world (ascii ''hi'') NotAnObject = (Inr example_result, ?w', NotAnObject)"
    by (simp add: prod_eq_iff)
  have norm1: "prepare ?E NotAnObject
      = Inr (empty_options\<lparr>opt_raw := Some (JBool False)\<rparr>, LStr (ascii ''auto''), LStr (ascii ''fr''))"
    by (simp add: run_defs)
  have norm2: "prepare ?E (Options ?opts2)
      = Inr (?opts2\<lparr>opt_raw := Some (JBool False)\<rparr>, LStr (ascii ''auto''), LStr (ascii ''fr''))"
    by (simp add: run_defs)
  have same: "cache (?w'\<lparr>ext := 5000\<rparr>) (cache_key (LStr (ascii ''auto'')) (LStr (ascii ''fr'')) (ascii ''hi''))
      = cache ?w' (cache_key (LStr (ascii ''auto'')) (LStr (ascii ''fr'')) (ascii ''hi''))"
    by simp
  have trace1: "trace ?w' = [CacheGet (ascii ''auto-fr-hi''), TokenCall (ascii ''hi''),
        TransportCall (build_request ?E (LStr (ascii ''auto'')) (LStr (ascii ''fr'')) (ascii ''hi'')
          (ascii ''tk'') (ascii ''1.2'')),
        CacheSet (ascii ''auto-fr-hi'')]"
    by (simp add: run_defs)
  have live: "live ?E (?w'\<lparr>ext := 5000\<rparr>) (cache_key (LStr (ascii ''auto'')) (LStr (ascii ''fr'')) (ascii ''hi''))"
    by (simp add: live_def run_defs)
  from cache_idempotence [OF first norm1 norm2 same live] live trace1 show ?thesis
    by (simp add: key)
qed

text \<open>
  C4. The claim speaks of every \<^verbatim>\<open>from\<close> or \<^verbatim>\<open>to\<close> that \<open>isSupported\<close> refuses. The source
  asks \<open>isSupported\<close> only about a truthy value (\<^verbatim>\<open>lang && ...\<close>): the empty string is
  never checked, and with a table that does not support it the call goes on to the cache
  and the token provider.
\<close>

theorem empty_language_not_rejected:
  "\<not> isSupported (example_env TokenError (RequestFailed [])) (LStr [])
   \<and> fst (translate (example_env TokenError (RequestFailed [])) empty_world (ascii ''hi'')
        (Options \<lparr>opt_from = Some (LStr []), opt_to = None, opt_raw = None, opt_maxChunkChars = None\<rparr>))
     = Inl (Error 503 (ascii ''Failed to generate translate token''))
   \<and> trace (fst (snd (translate (example_env TokenError (RequestFailed [])) empty_world (ascii ''hi'')
        (Options \<lparr>opt_from = Some (LStr []), opt_to = None, opt_raw = None, opt_maxChunkChars = None\<rparr>))))
     = [CacheGet (ascii ''false-fr-hi''), TokenCall (ascii ''hi'')]"
  by (simp add: run_defs)

text \<open>
  C4, amended. When a truthy \<^verbatim>\<open>from\<close> or \<^verbatim>\<open>to\<close> is refused by \<open>isSupported\<close>, the call
  throws the error 400 and leaves the world as it was: the cache is not read, the token
  provider and the transport are not called, the options object is not changed. The
  message names \<^verbatim>\<open>to\<close> when \<^verbatim>\<open>to\<close> is refused, also when \<^verbatim>\<open>from\<close> is refused too.
\<close>

theorem unsupported_language_rejected:
  assumes "unsupported E (read_lang (opt_from opts)) \<or> unsupported E (read_lang (opt_to opts))"
  shows "translate E w str (Options opts) =
           (Inl (Error 400 (not_supported_message
                   (if unsupported E (read_lang (opt_to opts)) then read_lang (opt_to opts)
                    else read_lang (opt_from opts)))),
            w, Options opts)"
  using assms by (auto simp: translate.simps prepare_def validate_def)

theorem unsupported_language_rejected_witness:
  "unsupported (example_env example_token (Response 200 (Some example_body) None)) (LStr (ascii ''xx''))
   \<and> unsupported (example_env example_token (Response 200 (Some example_body) None)) (LStr (ascii ''yy''))
   \<and> translate (example_env example_token (Response 200 (Some example_body) None)) empty_world (ascii ''hi'')
        (Options \<lparr>opt_from = Some (LStr (ascii ''xx'')), opt_to = Some (LStr (ascii ''yy'')),
                   opt_raw = None, opt_maxChunkChars = None\<rparr>)
     = (Inl (Error 400 (not_supported_message (LStr (ascii ''yy'')))), empty_world,
        Options \<lparr>opt_from = Some (LStr (ascii ''xx'')), opt_to = Some (LStr (ascii ''yy'')),
                  opt_raw = None, opt_maxChunkChars = None\<rparr>)"
proof -
  let ?E = "example_env example_token (Response 200 (Some example_body) None)"
  let ?opts = "\<lparr>opt_from = Some (LStr (ascii ''xx'')), opt_to = Some (LStr (ascii ''yy'')),
                opt_raw = None, opt_maxChunkChars = None\<rparr>"
  have u: "unsupported ?E (LStr (ascii ''xx''))" "unsupported ?E (LStr (ascii ''yy''))"
    by (simp_all add: unsupported_def example_env_def example_isSupported_def
        example_getISOCode_def ascii_def)
  then have "unsupported ?E (read_lang (opt_from ?opts)) \<or> unsupported ?E (read_lang (opt_to ?opts))"
    by (simp add: read_lang_def)
  from unsupported_language_rejected [OF this, of empty_world "ascii ''hi''"] u show ?thesis
    by (simp add: read_lang_def)
qed

text \<open>
  C5. The claim is that a decoded body never makes the parser throw. The reads of
  indices 0, 2 and 8 are guarded, but at index 7 the source tests only that
  \<^verbatim>\<open>body[7][0]\<close> is truthy before it calls \<^verbatim>\<open>str.replace\<close>: a number there makes the call
  throw a \<^verbatim>\<open>TypeError\<close>, which is not the error 502 and which nothing catches.
\<close>

theorem suggestion_not_a_string_throws:
  "parse_response False (LStr (ascii ''auto''))
       (JArr [JNull, JNull, JNull, JNull, JNull, JNull, JNull, JArr [JNum 1]])
     = Inl TypeError
   \<and> fst (translate
        (example_env example_token
           (Response 200 (Some (JArr [JNull, JNull, JNull, JNull, JNull, JNull, JNull, JArr [JNum 1]])) None))
        empty_world (ascii ''hi'') NotAnObject)
     = Inl TypeError"
  by (simp add: run_defs)

text \<open>
  C6. The claim sets \<open>didYouMean\<close> whenever the detected value differs from the requested
  source. The source also wants the detected value truthy. An empty string at index 2 is
  not null, so it is the detected value; it differs from \<^verbatim>\<open>"auto"\<close>, and yet the flag stays
  unset and \<open>iso\<close> is the requested source.
\<close>

theorem detected_empty_string_not_reported:
  "detectedIso (LStr (ascii ''auto'')) (JArr [JNull, JNull, JStr []]) = JStr []
   \<and> JStr [] \<noteq> lang_val (LStr (ascii ''auto''))
   \<and> parse_response False (LStr (ascii ''auto'')) (JArr [JNull, JNull, JStr []])
     = Inr \<lparr>result_text = [],
            result_from =
              \<lparr>from_language = \<lparr>language_didYouMean = False, language_iso = JStr (ascii ''auto'')\<rparr>,
               from_text = \<lparr>text_autoCorrected = False, text_value = [], text_didYouMean = False\<rparr>\<rparr>,
            result_raw = JStr []\<rparr>"
  by (simp add: run_defs)

text \<open>
  C6, amended. The detected value is the one at \<^verbatim>\<open>[8][0][0]\<close> unless that is null or
  undefined, else the one at \<^verbatim>\<open>[2]\<close> unless that is null or undefined, else the requested
  source. When it is truthy and differs from the requested source, \<open>didYouMean\<close> is true
  and \<open>iso\<close> is the detected value; otherwise \<open>didYouMean\<close> is false and \<open>iso\<close> is the
  requested source.
\<close>

theorem detected_language:
  assumes "parse_response raw fromISO body = Inr r"
  shows "detectedIso fromISO body =
           (if \<not> nullish (opt_index (opt_index (opt_index body 8) 0) 0)
            then opt_index (opt_index (opt_index body 8) 0) 0
            else if \<not> nullish (opt_index body 2) then opt_index body 2
            else lang_val fromISO)
       \<and> (truthy (detectedIso fromISO body) \<and> detectedIso fromISO body \<noteq> lang_val fromISO \<longrightarrow>
            language_didYouMean (from_language (result_from r))
            \<and> language_iso (from_language (result_from r)) = detectedIso fromISO body)
       \<and> (\<not> (truthy (detectedIso fromISO body) \<and> detectedIso fromISO body \<noteq> lang_val fromISO) \<longrightarrow>
            \<not> language_didYouMean (from_language (result_from r))
            \<and> language_iso (from_language (result_from r)) = lang_val fromISO)"
proof -
  from assms have "from_language (result_from r) = detect_language fromISO body"
    by (auto simp: parse_response_def split: sum.splits)
  then show ?thesis
    by (auto simp: detect_language_def detectedIso_def coalesce_def Let_def)
qed

theorem detected_language_witness:
  "parse_response False (LStr (ascii ''auto'')) example_body = Inr example_result
   \<and> detectedIso (LStr (ascii ''auto'')) example_body = JStr (ascii ''fr'')
   \<and> language_didYouMean (from_language (result_from example_result))
   \<and> language_iso (from_language (result_from example_result)) = JStr (ascii ''fr'')"
proof -
  have p: "parse_response False (LStr (ascii ''auto'')) example_body = Inr example_result"
    by (simp add: run_defs)
  have d: "detectedIso (LStr (ascii ''auto'')) example_body = JStr (ascii ''fr'')"
    by (simp add: run_defs)
  from detected_language [OF p] p d show ?thesis
    by (simp add: ascii_def)
qed








text \<open>
  C10. A call on an options object that passes the language validation leaves that
  object with \<^verbatim>\<open>raw\<close> set to \<^verbatim>\<open>Boolean(options.raw)\<close> and with \<^verbatim>\<open>from\<close>, \<^verbatim>\<open>to\<close> and
  \<^verbatim>\<open>maxChunkChars\<close> as they were, whatever path the call takes afterwards.
\<close>

theorem options_raw_made_boolean:
  assumes "validate E opts = None"
  shows "\<exists>opts'. snd (snd (translate E w str (Options opts))) = Options opts'
           \<and> opt_raw opts' = Some (JBool (truthy (read_val (opt_raw opts))))
           \<and> opt_from opts' = opt_from opts
           \<and> opt_to opts' = opt_to opts
           \<and> opt_maxChunkChars opts' = opt_maxChunkChars opts"
proof -
  let ?opts' = "opts\<lparr>opt_raw := Some (JBool (truthy (read_val (opt_raw opts))))\<rparr>"
  from assms obtain fromISO toISO where
    p: "prepare E (Options opts) = Inr (?opts', fromISO, toISO)"
    by (simp add: prepare_def)
  have "snd (snd (translate E w str (Options opts))) = Options ?opts'"
    using p
    by (auto simp: translate.simps caller_arg_def split: prod.splits option.splits sum.splits)
  then show ?thesis by simp
qed

theorem options_raw_made_boolean_witness:
  "validate (example_env example_token (Response 200 (Some example_body) None))
       \<lparr>opt_from = None, opt_to = Some (LStr (ascii ''en'')), opt_raw = Some (JStr (ascii ''yes'')),
        opt_maxChunkChars = Some 8\<rparr> = None
   \<and> snd (snd (translate (example_env example_token (Response 200 (Some example_body) None))
        empty_world (ascii ''Bonjour le monde'')
        (Options \<lparr>opt_from = None, opt_to = Some (LStr (ascii ''en'')),
                   opt_raw = Some (JStr (ascii ''yes'')), opt_maxChunkChars = Some 8\<rparr>)))
     = Options \<lparr>opt_from = None, opt_to = Some (LStr (ascii ''en'')),
                 opt_raw = Some (JBool True), opt_maxChunkChars = Some 8\<rparr>"
proof -
  let ?E = "example_env example_token (Response 200 (Some example_body) None)"
  let ?opts = "\<lparr>opt_from = None, opt_to = Some (LStr (ascii ''en'')),
                opt_raw = Some (JStr (ascii ''yes'')), opt_maxChunkChars = Some 8\<rparr>"
  have v: "validate ?E ?opts = None"
    by (simp add: run_defs)
  from options_raw_made_boolean [OF v, of empty_world "ascii ''Bonjour le monde''"] v
  show ?thesis
    by (auto simp: read_val_def ascii_def)
qed

end
